theory Spec2Isabelle
  imports Main "HOL-Library.Sublist"
begin

section \<open>The page: document, window and storage\<close>

text \<open>
  The three scripts share nothing but the browser's page. The page is modelled as a
  record of what the scripts read and write: the document title, the elements (named
  by natural numbers, in document order) with their \<open>id\<close>, \<open>class\<close>,
  \<open>data-theme\<close> and \<open>src\<close> attributes, the focused element, the result of
  the media query \<open>(prefers-color-scheme: dark)\<close>, the local storage, and the
  mutation observers that currently watch the class attribute of the root element.

  A class attribute is kept as its list of tokens (what \<open>classList\<close> shows);
  \<open>className\<close> is that list joined by single spaces. Tree queries that the
  scripts only read (\<open>element.querySelector\<close>, \<open>node.contains\<close>) are fields
  of the page. \<open>matchMedia = None\<close> is a window without the \<open>matchMedia\<close>
  function, which the scripts test for in four places.
\<close>

type_synonym node = nat

datatype js_error = TypeError | SyntaxError | InvalidCharacterError

record page =
  title :: string
  elements :: "node list"
  idAttr :: "node \<Rightarrow> string option"
  classAttr :: "node \<Rightarrow> string list"
  dataTheme :: "node \<Rightarrow> string option"
  src :: "node \<Rightarrow> string option"
  querySelectorIn :: "node \<Rightarrow> string \<Rightarrow> node option"
  containsNode :: "node \<Rightarrow> node \<Rightarrow> bool"
  activeElement :: "node option"
  matchMedia :: "bool option"
  localStorage :: "string \<rightharpoonup> string"
  observing :: "nat list"
  observerCount :: nat

definition documentElement :: node where
  "documentElement = 0"

subsection \<open>Statements that may throw\<close>

text \<open>
  A statement maps the state to the state it leaves and the exception it threw, if any.
  What a statement wrote before it threw stays written, as in the browser.
\<close>

type_synonym 's stmt = "'s \<Rightarrow> js_error option \<times> 's"

definition skip :: "'s stmt" where
  "skip s = (None, s)"

definition throw :: "js_error \<Rightarrow> 's stmt" where
  "throw e s = (Some e, s)"

definition assign :: "('s \<Rightarrow> 's) \<Rightarrow> 's stmt" where
  "assign f s = (None, f s)"

definition andThen :: "'s stmt \<Rightarrow> 's stmt \<Rightarrow> 's stmt" where
  "andThen f g s = (case f s of (None, s') \<Rightarrow> g s' | (Some e, s') \<Rightarrow> (Some e, s'))"

fun forEach :: "'a list \<Rightarrow> ('a \<Rightarrow> 's stmt) \<Rightarrow> 's stmt" where
  "forEach [] f = skip"
| "forEach (x # xs) f = andThen (f x) (forEach xs f)"

definition onElement :: "node option \<Rightarrow> (node \<Rightarrow> 's stmt) \<Rightarrow> 's stmt" where
  \<comment> \<open>a property access on \<open>null\<close> throws a TypeError\<close>
  "onElement e f = (case e of None \<Rightarrow> throw TypeError | Some n \<Rightarrow> f n)"

subsection \<open>Strings and class lists\<close>

fun str_includes :: "string \<Rightarrow> string \<Rightarrow> bool" where
  \<comment> \<open>\<open>String.prototype.includes\<close>: the second string occurs in the first\<close>
  "str_includes [] needle = (needle = [])"
| "str_includes (c # cs) needle = (prefix needle (c # cs) \<or> str_includes cs needle)"

fun joinTokens :: "string list \<Rightarrow> string" where
  "joinTokens [] = []"
| "joinTokens [t] = t"
| "joinTokens (t # ts) = t @ '' '' @ joinTokens ts"

definition className :: "'a page_scheme \<Rightarrow> node \<Rightarrow> string" where
  "className pg n = joinTokens (classAttr pg n)"

definition isAsciiWhitespace :: "char \<Rightarrow> bool" where
  "isAsciiWhitespace c = (c \<in> {CHR 0x09, CHR 0x0A, CHR 0x0C, CHR 0x0D, CHR '' ''})"

definition tokenError :: "string \<Rightarrow> js_error option" where
  \<comment> \<open>the check \<open>DOMTokenList\<close> makes on every token it is given\<close>
  "tokenError t =
     (if t = [] then Some SyntaxError
      else if list_ex isAsciiWhitespace t then Some InvalidCharacterError
      else None)"

definition classList_contains :: "'a page_scheme \<Rightarrow> node \<Rightarrow> string \<Rightarrow> bool" where
  "classList_contains pg n t = (t \<in> set (classAttr pg n))"

definition classList_add :: "node \<Rightarrow> string \<Rightarrow> 'a page_scheme stmt" where
  "classList_add n t pg =
     (case tokenError t of
        Some e \<Rightarrow> (Some e, pg)
      | None \<Rightarrow>
          (None, pg\<lparr>classAttr := (classAttr pg)
             (n := (if t \<in> set (classAttr pg n) then classAttr pg n
                    else classAttr pg n @ [t]))\<rparr>))"

definition classList_remove :: "node \<Rightarrow> string list \<Rightarrow> 'a page_scheme stmt" where
  "classList_remove n ts pg =
     (case List.find (\<lambda>t. tokenError t \<noteq> None) ts of
        Some t \<Rightarrow> (tokenError t, pg)
      | None \<Rightarrow>
          (None, pg\<lparr>classAttr := (classAttr pg)
             (n := filter (\<lambda>t. t \<notin> set ts) (classAttr pg n))\<rparr>))"

definition getElementById :: "'a page_scheme \<Rightarrow> string \<Rightarrow> node option" where
  "getElementById pg i = List.find (\<lambda>n. idAttr pg n = Some i) (elements pg)"

definition querySelectorAll_class :: "'a page_scheme \<Rightarrow> string \<Rightarrow> node list" where
  \<comment> \<open>\<open>document.querySelectorAll('.c')\<close>: the elements of class \<open>c\<close>, in document order\<close>
  "querySelectorAll_class pg c = filter (\<lambda>n. c \<in> set (classAttr pg n)) (elements pg)"

section \<open>Utils and ThemeManager (theme-dependent images)\<close>

definition THEMES_DARK :: string where
  "THEMES_DARK = ''theme-dark''"

definition THEMES_AUTO :: string where
  "THEMES_AUTO = ''theme-auto''"

definition isDarkMode :: "'a page_scheme \<Rightarrow> js_error + bool" where
  "isDarkMode pg =
     (let themeClass = className pg documentElement in
      if str_includes themeClass THEMES_DARK then Inr True
      else if str_includes themeClass THEMES_AUTO then
        (case matchMedia pg of None \<Rightarrow> Inl TypeError | Some m \<Rightarrow> Inr m)
      else Inr False)"

record imagePaths =
  dark :: string
  light :: string

definition IMAGES_signature :: imagePaths where
  "IMAGES_signature = \<lparr>dark = ''./images/signature.gif'', light = ''./images/signature_alt.gif''\<rparr>"

definition IMAGES_rateIcon :: imagePaths where
  "IMAGES_rateIcon = \<lparr>dark = ''./images/rate1_w.png'', light = ''./images/rate1.png''\<rparr>"

definition SELECTORS_SIGNATURE :: string where
  "SELECTORS_SIGNATURE = ''signature''"

definition SELECTORS_RATE_ICON :: string where
  "SELECTORS_RATE_ICON = ''rate-icon''"

definition updateImageSrc :: "node option \<Rightarrow> imagePaths \<Rightarrow> 'a page_scheme stmt" where
  "updateImageSrc element paths pg =
     (case element of
        None \<Rightarrow> (None, pg)
      | Some n \<Rightarrow>
          (case isDarkMode pg of
             Inl e \<Rightarrow> (Some e, pg)
           | Inr isDark \<Rightarrow>
               (None, pg\<lparr>src := (src pg)(n := Some (if isDark then dark paths else light paths))\<rparr>)))"

text \<open>
  The \<open>ThemeManager\<close> object adds one field to the page: its reference to the
  mutation observer, \<open>None\<close> for \<open>null\<close>. Observers are named by numbers; the
  page lists those that are observing the class attribute of the root element.
\<close>

record themeManager = page +
  observer :: "nat option"

definition updateImagesForTheme :: "'a themeManager_scheme stmt" where
  "updateImagesForTheme s =
     (let signature = getElementById s SELECTORS_SIGNATURE;
          rateIcon = getElementById s SELECTORS_RATE_ICON
      in andThen (updateImageSrc signature IMAGES_signature)
                 (updateImageSrc rateIcon IMAGES_rateIcon) s)"

definition setupThemeObserver :: "'a themeManager_scheme stmt" where
  \<comment> \<open>\<open>new MutationObserver\<close> makes a new observer; \<open>observe\<close> starts it\<close>
  "setupThemeObserver s =
     (let k = observerCount s
      in (None, s\<lparr>observerCount := Suc k, observing := observing s @ [k], observer := Some k\<rparr>))"

definition ThemeManager_bindEvents :: "'a themeManager_scheme stmt" where
  \<comment> \<open>registers \<open>ThemeManager_onSchemeChange\<close> below, where \<open>matchMedia\<close> exists\<close>
  "ThemeManager_bindEvents = skip"

definition ThemeManager_init :: "'a themeManager_scheme stmt" where
  "ThemeManager_init =
     andThen updateImagesForTheme (andThen ThemeManager_bindEvents setupThemeObserver)"

definition destroy :: "'a themeManager_scheme stmt" where
  "destroy s =
     (case observer s of
        Some k \<Rightarrow> (None, s\<lparr>observing := removeAll k (observing s), observer := None\<rparr>)
      | None \<Rightarrow> (None, s))"

text \<open>
  What the browser does with the class mutations of the root element: every observer
  that is observing gets the records, and the callback of \<open>setupThemeObserver\<close>
  (the only observers of these scripts) updates the images once for each record of an
  attribute \<open>class\<close>.
\<close>

record mutationRecord =
  mutationType :: string
  attributeName :: string

definition observerCallback :: "mutationRecord list \<Rightarrow> 'a themeManager_scheme stmt" where
  "observerCallback mutations =
     forEach mutations (\<lambda>mutation.
       if mutationType mutation = ''attributes'' \<and> attributeName mutation = ''class''
       then updateImagesForTheme else skip)"

definition deliverMutations :: "mutationRecord list \<Rightarrow> 'a themeManager_scheme stmt" where
  "deliverMutations mutations s = forEach (observing s) (\<lambda>k. observerCallback mutations) s"

definition ThemeManager_onSchemeChange :: "bool \<Rightarrow> 'a themeManager_scheme stmt" where
  \<comment> \<open>the listener of \<open>bindEvents\<close>, registered only where \<open>matchMedia\<close> exists\<close>
  "ThemeManager_onSchemeChange m s =
     (case matchMedia s of
        None \<Rightarrow> (None, s)
      | Some m0 \<Rightarrow> updateImagesForTheme (s\<lparr>matchMedia := Some m\<rparr>))"

section \<open>The page title (PageTitleManager and script.js)\<close>

definition BLUR_TITLE :: string where
  "BLUR_TITLE = ''Ooops, ainda estou aqui!''"

definition script_blur_title :: string where
  \<comment> \<open>the message of script.js starts with U+1F519, here its four bytes in UTF-8\<close>
  "script_blur_title = [CHR 0xF0, CHR 0x9F, CHR 0x94, CHR 0x99] @ '' Ooops, ainda estou aqui!''"

record pageTitleManager = page +
  originalTitle :: string

datatype window_event = Blur | Focus

definition PageTitleManager_load :: "'a pageTitleManager_scheme \<Rightarrow> 'a pageTitleManager_scheme" where
  \<comment> \<open>the object literal reads \<open>document.title\<close> once, when the script is evaluated\<close>
  "PageTitleManager_load s = s\<lparr>originalTitle := title s\<rparr>"

definition handleBlur :: "'a pageTitleManager_scheme \<Rightarrow> 'a pageTitleManager_scheme" where
  "handleBlur s = s\<lparr>title := BLUR_TITLE\<rparr>"

definition handleFocus :: "'a pageTitleManager_scheme \<Rightarrow> 'a pageTitleManager_scheme" where
  "handleFocus s = s\<lparr>title := originalTitle s\<rparr>"

fun PageTitleManager_event :: "'a pageTitleManager_scheme \<Rightarrow> window_event \<Rightarrow> 'a pageTitleManager_scheme" where
  "PageTitleManager_event s Blur = handleBlur s"
| "PageTitleManager_event s Focus = handleFocus s"

record script_js = page +
  docTitle :: string

definition script_load :: "'a script_js_scheme \<Rightarrow> 'a script_js_scheme" where
  "script_load s = s\<lparr>docTitle := title s\<rparr>"

fun script_event :: "'a script_js_scheme \<Rightarrow> window_event \<Rightarrow> 'a script_js_scheme" where
  "script_event s Blur = s\<lparr>title := script_blur_title\<rparr>"
| "script_event s Focus = s\<lparr>title := docTitle s\<rparr>"

section \<open>ThemeToggleModal (the theme selector)\<close>

text \<open>
  The fields of the \<open>ThemeToggleModal\<close> object. An element reference is
  \<open>None\<close> while it is \<open>null\<close>; \<open>currentTheme\<close> is \<open>None\<close> when it
  holds \<open>undefined\<close>, which \<open>dataset.theme\<close> gives for an option without a
  \<open>data-theme\<close> attribute.
\<close>

record themeToggleModal = page +
  modal :: "node option"
  toggleBtn :: "node option"
  optionsPanel :: "node option"
  themeOptions :: "node list"
  sunIcon :: "node option"
  moonIcon :: "node option"
  autoIcon :: "node option"
  isOpen :: bool
  currentTheme :: "string option"

definition jsToString :: "string option \<Rightarrow> string" where
  \<comment> \<open>the string a DOM method makes of its argument\<close>
  "jsToString v = (case v of None \<Rightarrow> ''undefined'' | Some t \<Rightarrow> t)"

definition ThemeToggleModal_load :: "'a themeToggleModal_scheme \<Rightarrow> 'a themeToggleModal_scheme" where
  \<comment> \<open>the object literal\<close>
  "ThemeToggleModal_load s =
     s\<lparr>modal := None, toggleBtn := None, optionsPanel := None, themeOptions := [],
       sunIcon := None, moonIcon := None, autoIcon := None,
       isOpen := False, currentTheme := Some ''theme-auto''\<rparr>"

definition bindElements :: "'a themeToggleModal_scheme stmt" where
  "bindElements =
     andThen (assign (\<lambda>s. s\<lparr>modal := getElementById s ''theme-toggle-modal''\<rparr>))
    (andThen (assign (\<lambda>s. s\<lparr>toggleBtn := getElementById s ''theme-toggle-btn''\<rparr>))
    (andThen (assign (\<lambda>s. s\<lparr>optionsPanel := getElementById s ''theme-options-panel''\<rparr>))
    (andThen (assign (\<lambda>s. s\<lparr>themeOptions := querySelectorAll_class s ''theme-option''\<rparr>))
    (andThen (\<lambda>s. onElement (toggleBtn s)
                (\<lambda>b. assign (\<lambda>s. s\<lparr>sunIcon := querySelectorIn s b ''.sun-icon''\<rparr>)) s)
    (andThen (\<lambda>s. onElement (toggleBtn s)
                (\<lambda>b. assign (\<lambda>s. s\<lparr>moonIcon := querySelectorIn s b ''.moon-icon''\<rparr>)) s)
             (\<lambda>s. onElement (toggleBtn s)
                (\<lambda>b. assign (\<lambda>s. s\<lparr>autoIcon := querySelectorIn s b ''.auto-icon''\<rparr>)) s))))))"

definition detectCurrentTheme :: "'a themeToggleModal_scheme stmt" where
  "detectCurrentTheme s =
     (if classList_contains s documentElement ''theme-dark''
      then (None, s\<lparr>currentTheme := Some ''theme-dark''\<rparr>)
      else if classList_contains s documentElement ''theme-light''
      then (None, s\<lparr>currentTheme := Some ''theme-light''\<rparr>)
      else (None, s\<lparr>currentTheme := Some ''theme-auto''\<rparr>))"

definition activeIcon :: "'a themeToggleModal_scheme \<Rightarrow> node option" where
  \<comment> \<open>"Determine which icon to show"; \<open>None\<close> is the variable left \<open>undefined\<close>\<close>
  "activeIcon s =
     (if currentTheme s = Some ''theme-light'' then sunIcon s
      else if currentTheme s = Some ''theme-dark'' then moonIcon s
      else if currentTheme s = Some ''theme-auto'' then
        (let prefersDark = (case matchMedia s of None \<Rightarrow> False | Some m \<Rightarrow> m)
         in if prefersDark then moonIcon s else sunIcon s)
      else None)"

definition updateButtonIcon :: "'a themeToggleModal_scheme stmt" where
  "updateButtonIcon =
     andThen (\<lambda>s. onElement (sunIcon s) (\<lambda>n. classList_remove n [''active'']) s)
    (andThen (\<lambda>s. onElement (moonIcon s) (\<lambda>n. classList_remove n [''active'']) s)
    (andThen (\<lambda>s. onElement (autoIcon s) (\<lambda>n. classList_remove n [''active'']) s)
             (\<lambda>s. case activeIcon s of
                     None \<Rightarrow> skip s
                   | Some n \<Rightarrow> classList_add n ''active'' s)))"

definition updateActiveOption :: "'a themeToggleModal_scheme stmt" where
  "updateActiveOption s =
     forEach (themeOptions s) (\<lambda>option.
       andThen (classList_remove option [''active''])
               (\<lambda>s. if dataTheme s option = currentTheme s
                     then classList_add option ''active'' s else skip s)) s"

definition updateUI :: "'a themeToggleModal_scheme stmt" where
  "updateUI = andThen updateButtonIcon updateActiveOption"

definition setTheme :: "string option \<Rightarrow> 'a themeToggleModal_scheme stmt" where
  "setTheme theme =
     andThen (classList_remove documentElement [''theme-light'', ''theme-dark'', ''theme-auto''])
    (andThen (classList_add documentElement (jsToString theme))
    (andThen (assign (\<lambda>s. s\<lparr>currentTheme := theme\<rparr>))
    (andThen (assign (\<lambda>s. s\<lparr>localStorage := (localStorage s)(''littlelink-theme'' \<mapsto> jsToString theme)\<rparr>))
             updateUI)))"

definition loadSavedTheme :: "'a themeToggleModal_scheme stmt" where
  "loadSavedTheme s =
     (case localStorage s ''littlelink-theme'' of
        None \<Rightarrow> skip s
      | Some savedTheme \<Rightarrow>
          if savedTheme \<noteq> [] \<and> savedTheme \<in> set [''theme-light'', ''theme-dark'', ''theme-auto'']
          then setTheme (Some savedTheme) s
          else skip s)"

definition openPanel :: "'a themeToggleModal_scheme stmt" where
  "openPanel =
     andThen (\<lambda>s. onElement (optionsPanel s) (\<lambda>p. classList_add p ''active'') s)
    (andThen (assign (\<lambda>s. s\<lparr>isOpen := True\<rparr>))
             (\<lambda>s. onElement (optionsPanel s)
                (\<lambda>p s. case querySelectorIn s p ''.theme-option'' of
                         None \<Rightarrow> skip s
                       | Some firstOption \<Rightarrow> assign (\<lambda>s. s\<lparr>activeElement := Some firstOption\<rparr>) s) s))"

definition closePanel :: "'a themeToggleModal_scheme stmt" where
  "closePanel =
     andThen (\<lambda>s. onElement (optionsPanel s) (\<lambda>p. classList_remove p [''active'']) s)
             (assign (\<lambda>s. s\<lparr>isOpen := False\<rparr>))"

definition togglePanel :: "'a themeToggleModal_scheme stmt" where
  "togglePanel s = (if isOpen s then closePanel s else openPanel s)"

definition getEffectiveTheme :: "'a themeToggleModal_scheme \<Rightarrow> string option" where
  "getEffectiveTheme s =
     (if currentTheme s = Some ''theme-auto'' then
        (let prefersDark = (case matchMedia s of None \<Rightarrow> False | Some m \<Rightarrow> m)
         in if prefersDark then Some ''theme-dark'' else Some ''theme-light'')
      else currentTheme s)"

subsection \<open>The listeners of bindEvents\<close>

definition onToggleBtnClick :: "'a themeToggleModal_scheme stmt" where
  "onToggleBtnClick = togglePanel"

definition onOptionClick :: "node \<Rightarrow> 'a themeToggleModal_scheme stmt" where
  "onOptionClick option = andThen (\<lambda>s. setTheme (dataTheme s option) s) closePanel"

definition onDocumentClick :: "node \<Rightarrow> 'a themeToggleModal_scheme stmt" where
  "onDocumentClick target s =
     onElement (modal s) (\<lambda>m s. if \<not> containsNode s m target then closePanel s else skip s) s"

definition onKeydown :: "string \<Rightarrow> 'a themeToggleModal_scheme stmt" where
  "onKeydown key s = (if key = ''Escape'' \<and> isOpen s then closePanel s else skip s)"

definition onSchemeChange :: "'a themeToggleModal_scheme stmt" where
  "onSchemeChange s = (if currentTheme s = Some ''theme-auto'' then updateUI s else skip s)"

definition bindEvents :: "'a themeToggleModal_scheme stmt" where
  \<comment> \<open>registers the five listeners above; only \<open>toggleBtn.addEventListener\<close> can throw\<close>
  "bindEvents s = onElement (toggleBtn s) (\<lambda>b. skip) s"

definition ThemeToggleModal_init :: "'a themeToggleModal_scheme stmt" where
  "ThemeToggleModal_init =
     andThen bindElements (andThen bindEvents (andThen detectCurrentTheme
       (andThen updateUI loadSavedTheme)))"

text \<open>
  The events of the page. The listeners exist once \<open>bindEvents\<close> has run
  through, which is when the toggle button is bound (\<open>init\<close> stops at the first
  use of a missing button, before any listener is registered). A click on the toggle
  button stops at its listener (\<open>stopPropagation\<close>); a click on an option runs
  the listener of the option and then, bubbling, the listener of the document; any
  other click reaches the listener of the document alone. An exception ends the
  listener that threw it, not the page: the next listener starts from the state it
  left. A change of the system colour scheme changes the media query, where the window
  has one, and only there the change has a listener.
\<close>

datatype event =
    ToggleBtnClick
  | OptionClick node
  | DocumentClick node
  | Keydown string
  | SchemeChange bool

fun environment :: "'a themeToggleModal_scheme \<Rightarrow> event \<Rightarrow> 'a themeToggleModal_scheme" where
  "environment s (SchemeChange m) =
     (case matchMedia s of None \<Rightarrow> s | Some m0 \<Rightarrow> s\<lparr>matchMedia := Some m\<rparr>)"
| "environment s e = s"

fun listeners :: "'a themeToggleModal_scheme \<Rightarrow> event \<Rightarrow> 'a themeToggleModal_scheme" where
  "listeners s ToggleBtnClick = snd (onToggleBtnClick s)"
| "listeners s (OptionClick option) =
     (if option \<in> set (themeOptions s)
      then snd (onDocumentClick option (snd (onOptionClick option s)))
      else snd (onDocumentClick option s))"
| "listeners s (DocumentClick target) = snd (onDocumentClick target s)"
| "listeners s (Keydown key) = snd (onKeydown key s)"
| "listeners s (SchemeChange m) =
     (case matchMedia s of None \<Rightarrow> s | Some m0 \<Rightarrow> snd (onSchemeChange s))"

definition dispatch :: "'a themeToggleModal_scheme \<Rightarrow> event \<Rightarrow> 'a themeToggleModal_scheme" where
  "dispatch s e =
     (let s' = environment s e
      in if toggleBtn s' = None then s' else listeners s' e)"

section \<open>Notions used in the properties\<close>

definition themeClasses :: "string list" where
  \<comment> \<open>the three theme marker classes, the list \<open>loadSavedTheme\<close> accepts\<close>
  "themeClasses = [''theme-light'', ''theme-dark'', ''theme-auto'']"

definition iconsBound :: "'a themeToggleModal_scheme \<Rightarrow> bool" where
  "iconsBound s = (sunIcon s \<noteq> None \<and> moonIcon s \<noteq> None \<and> autoIcon s \<noteq> None)"

definition icons :: "'a themeToggleModal_scheme \<Rightarrow> node list" where
  "icons s = concat (map (\<lambda>e. case e of None \<Rightarrow> [] | Some n \<Rightarrow> [n]) [sunIcon s, moonIcon s, autoIcon s])"

definition activeIcons :: "'a themeToggleModal_scheme \<Rightarrow> node set" where
  "activeIcons s = set (filter (\<lambda>n. classList_contains s n ''active'') (icons s))"

definition activeOptions :: "'a themeToggleModal_scheme \<Rightarrow> node set" where
  "activeOptions s = set (filter (\<lambda>n. classList_contains s n ''active'') (themeOptions s))"

definition panelActive :: "'a themeToggleModal_scheme \<Rightarrow> bool" where
  \<comment> \<open>the options panel exists and carries the class \<open>active\<close>\<close>
  "panelActive s = (case optionsPanel s of None \<Rightarrow> False | Some p \<Rightarrow> classList_contains s p ''active'')"

definition panelOpen :: "'a themeToggleModal_scheme \<Rightarrow> bool" where
  "panelOpen s = (isOpen s \<and> panelActive s)"

definition panelClosed :: "'a themeToggleModal_scheme \<Rightarrow> bool" where
  "panelClosed s = (\<not> isOpen s \<and> \<not> panelActive s)"

definition panelInv :: "'a themeToggleModal_scheme \<Rightarrow> bool" where
  "panelInv s = (isOpen s = panelActive s)"

definition panelApart :: "'a themeToggleModal_scheme \<Rightarrow> bool" where
  \<comment> \<open>the options panel is an element of its own: not the root, not an option, not an icon\<close>
  "panelApart s =
     (case optionsPanel s of
        None \<Rightarrow> True
      | Some p \<Rightarrow> p \<noteq> documentElement \<and> p \<notin> set (themeOptions s) \<and>
                 Some p \<notin> {sunIcon s, moonIcon s, autoIcon s})"

subsection \<open>What updateUI writes\<close>

text \<open>
  Every write of \<open>updateUI\<close> takes the class \<open>active\<close> from an element or gives
  it to one. \<open>setActive b\<close> is the class list after such a write, \<open>markAll\<close> a
  sequence of them; \<open>uiMarks\<close> is the sequence \<open>updateUI\<close> makes, read off the
  fields it does not write.
\<close>

definition setActive :: "bool \<Rightarrow> string list \<Rightarrow> string list" where
  "setActive b cs = filter (\<lambda>t. t \<noteq> ''active'') cs @ (if b then [''active''] else [])"

definition mark :: "node \<times> bool \<Rightarrow> (node \<Rightarrow> string list) \<Rightarrow> (node \<Rightarrow> string list)" where
  "mark m c = c(fst m := setActive (snd m) (c (fst m)))"

definition markAll :: "(node \<times> bool) list \<Rightarrow> (node \<Rightarrow> string list) \<Rightarrow> (node \<Rightarrow> string list)" where
  "markAll W c = fold mark W c"

definition optionMarks :: "'a themeToggleModal_scheme \<Rightarrow> (node \<times> bool) list" where
  "optionMarks s = map (\<lambda>option. (option, dataTheme s option = currentTheme s)) (themeOptions s)"

definition iconMarks :: "'a themeToggleModal_scheme \<Rightarrow> (node \<times> bool) list" where
  "iconMarks s =
     (case sunIcon s of None \<Rightarrow> [] | Some a \<Rightarrow> (a, False) #
     (case moonIcon s of None \<Rightarrow> [] | Some b \<Rightarrow> (b, False) #
     (case autoIcon s of None \<Rightarrow> [] | Some c \<Rightarrow> (c, False) #
     (case activeIcon s of None \<Rightarrow> [] | Some x \<Rightarrow> [(x, True)]))))"

definition uiMarks :: "'a themeToggleModal_scheme \<Rightarrow> (node \<times> bool) list" where
  "uiMarks s = iconMarks s @ (if iconsBound s then optionMarks s else [])"

definition samePanel :: "'a themeToggleModal_scheme \<Rightarrow> 'a themeToggleModal_scheme \<Rightarrow> bool" where
  "samePanel s s' =
     (optionsPanel s' = optionsPanel s \<and> themeOptions s' = themeOptions s \<and>
      sunIcon s' = sunIcon s \<and> moonIcon s' = moonIcon s \<and> autoIcon s' = autoIcon s \<and>
      isOpen s' = isOpen s \<and>
      (case optionsPanel s of None \<Rightarrow> True | Some p \<Rightarrow> classAttr s' p = classAttr s p))"

definition panelOk :: "'a themeToggleModal_scheme \<Rightarrow> bool" where
  "panelOk s = (panelApart s \<and> panelInv s)"

definition keeps :: "('s \<Rightarrow> 'b) \<Rightarrow> 's stmt \<Rightarrow> bool" where
  "keeps g f = (\<forall>s. g (snd (f s)) = g s)"

subsection \<open>An example page\<close>

text \<open>
  A page with the structure the scripts look for: the root element 0 with the class
  \<open>theme-auto\<close>; the modal 1 holding the toggle button 2 (with the icons 3, 4, 5)
  and the options panel 6 (with the options 7, 8, 9 for light, dark and auto); the two
  images 10 and 11. The system prefers the dark scheme.
\<close>

definition examplePage :: page where
  "examplePage =
     \<lparr>title = ''My Links'',
      elements = [0, 1, 2, 3, 4, 5, 6, 7, 8, 9, 10, 11],
      idAttr = (\<lambda>n. None)(1 := Some ''theme-toggle-modal'', 2 := Some ''theme-toggle-btn'',
                 6 := Some ''theme-options-panel'', 10 := Some ''signature'', 11 := Some ''rate-icon''),
      classAttr = (\<lambda>n. [])(0 := [''theme-auto''], 3 := [''sun-icon''], 4 := [''moon-icon''],
                 5 := [''auto-icon''], 7 := [''theme-option''], 8 := [''theme-option''],
                 9 := [''theme-option'']),
      dataTheme = (\<lambda>n. None)(7 := Some ''theme-light'', 8 := Some ''theme-dark'', 9 := Some ''theme-auto''),
      src = (\<lambda>n. None),
      querySelectorIn = (\<lambda>n q. None)
                 (2 := (\<lambda>q. None)(''.sun-icon'' := Some 3, ''.moon-icon'' := Some 4, ''.auto-icon'' := Some 5),
                  6 := (\<lambda>q. None)(''.theme-option'' := Some 7)),
      containsNode = (\<lambda>a b. a = b \<or> (a = 1 \<and> b \<in> {2, 3, 4, 5, 6, 7, 8, 9}) \<or> (a = 2 \<and> b \<in> {3, 4, 5})
                        \<or> (a = 6 \<and> b \<in> {7, 8, 9})),
      activeElement = None,
      matchMedia = Some True,
      localStorage = Map.empty,
      observing = [],
      observerCount = 0\<rparr>"

definition exampleModal :: themeToggleModal where
  \<comment> \<open>the selector after \<open>bindElements\<close>, closed\<close>
  "exampleModal = page.extend examplePage
     (themeToggleModal.fields (Some 1) (Some 2) (Some 6) [7, 8, 9] (Some 3) (Some 4) (Some 5)
        False (Some ''theme-auto''))"

definition exampleOpenModal :: themeToggleModal where
  "exampleOpenModal = exampleModal\<lparr>classAttr := (classAttr exampleModal)(6 := [''active'']), isOpen := True\<rparr>"

definition exampleManager :: themeManager where
  \<comment> \<open>the image manager with its observer 0 observing\<close>
  "exampleManager = page.extend (examplePage\<lparr>observing := [0], observerCount := 1\<rparr>)
     (themeManager.fields (Some 0))"

definition exampleTitleManager :: pageTitleManager where
  "exampleTitleManager = page.extend examplePage (pageTitleManager.fields [])"

definition exampleScript :: script_js where
  "exampleScript = page.extend examplePage (script_js.fields [])"

lemmas example_defs = exampleModal_def examplePage_def page.extend_def themeToggleModal.fields_def
  exampleOpenModal_def exampleManager_def themeManager.fields_def exampleTitleManager_def
  pageTitleManager.fields_def exampleScript_def script_js.fields_def

lemma example_bindElements:
  "snd (bindElements (ThemeToggleModal_load exampleModal)) = exampleModal"
  by (simp add: example_defs ThemeToggleModal_load_def bindElements_def andThen_def assign_def
      onElement_def getElementById_def querySelectorAll_class_def)

section \<open>The page title\<close>

lemma originalTitle_kept: "originalTitle (foldl PageTitleManager_event s es) = originalTitle s"
proof (induction es arbitrary: s)
  case Nil
  show ?case by simp
next
  case (Cons e es)
  then show ?case by (cases e) (simp_all add: handleBlur_def handleFocus_def)
qed

lemma docTitle_kept: "docTitle (foldl script_event s es) = docTitle s"
proof (induction es arbitrary: s)
  case Nil
  show ?case by simp
next
  case (Cons e es)
  then show ?case by (cases e) simp_all
qed

text \<open>
  Claim C6. On blur the title becomes the fixed message of the script; the title read
  when the script was loaded is never written again, so after any sequence of blur and
  focus events that ends with a focus the title is the one the page was loaded with.
  This holds for \<open>PageTitleManager\<close> and for script.js alike.
\<close>

theorem title_restored:
  "title (PageTitleManager_event s Blur) = BLUR_TITLE \<and>
   title (script_event t Blur) = script_blur_title \<and>
   originalTitle (foldl PageTitleManager_event (PageTitleManager_load s) es) = title s \<and>
   docTitle (foldl script_event (script_load t) es) = title t \<and>
   title (foldl PageTitleManager_event (PageTitleManager_load s) (es @ [Focus])) = title s \<and>
   title (foldl script_event (script_load t) (es @ [Focus])) = title t"
  by (simp add: handleBlur_def handleFocus_def originalTitle_kept docTitle_kept
        PageTitleManager_load_def script_load_def)

theorem title_restored_witness:
  "title (foldl PageTitleManager_event (PageTitleManager_load exampleTitleManager) [Blur]) = BLUR_TITLE \<and>
   title (foldl script_event (script_load exampleScript) [Blur]) = script_blur_title \<and>
   title (foldl PageTitleManager_event (PageTitleManager_load exampleTitleManager)
            ([Blur, Focus, Blur, Blur] @ [Focus])) = ''My Links'' \<and>
   title (foldl script_event (script_load exampleScript) ([Blur, Focus, Blur, Blur] @ [Focus])) = ''My Links''"
proof -
  have "title exampleTitleManager = ''My Links''" "title exampleScript = ''My Links''"
    by (simp_all add: example_defs)
  then show ?thesis
    using title_restored[of "PageTitleManager_load exampleTitleManager" "script_load exampleScript" "[]"]
      title_restored[of exampleTitleManager exampleScript "[Blur, Focus, Blur, Blur]"]
    by simp
qed

section \<open>Dark mode and the images\<close>

lemma str_includes_sublist: "str_includes h n \<longleftrightarrow> sublist n h"
  by (induction h) (auto simp: sublist_Cons_right)

lemma sublist_space:
  assumes "CHR '' '' \<notin> set n" "n \<noteq> []"
  shows "sublist n (t @ CHR '' '' # r) \<longleftrightarrow> sublist n t \<or> sublist n r"
proof -
  have "\<not> prefix xs2 (CHR '' '' # r)" if "n = xs1 @ xs2" "xs2 \<noteq> []" for xs1 xs2
    using that assms(1) by (cases xs2) (auto simp: prefix_Cons)
  then have "sublist n t" if "n = xs1 @ xs2" "suffix xs1 t" "prefix xs2 (CHR '' '' # r)" for xs1 xs2
    using that by (cases "xs2 = []") auto
  moreover have "\<not> prefix n (CHR '' '' # r)"
    using assms by (cases n) (auto simp: prefix_Cons)
  ultimately show ?thesis
    by (auto simp: sublist_append sublist_Cons_right)
qed

lemma str_includes_joinTokens:
  assumes "CHR '' '' \<notin> set n" "n \<noteq> []"
  shows "str_includes (joinTokens ts) n \<longleftrightarrow> (\<exists>t\<in>set ts. str_includes t n)"
proof (induction ts rule: joinTokens.induct)
  case 1
  from assms show ?case by simp
next
  case (2 t)
  show ?case by simp
next
  case (3 t v va)
  then show ?case using assms by (simp add: str_includes_sublist sublist_space)
qed

text \<open>
  What \<open>isDarkMode\<close> computes where the media query exists: a test of the class
  attribute for two substrings. It reads the class attribute of the root and the media
  query, nothing else.
\<close>

lemma isDarkMode_includes:
  "matchMedia pg = Some m \<Longrightarrow>
   isDarkMode pg = Inr (str_includes (className pg documentElement) ''theme-dark'' \<or>
                        str_includes (className pg documentElement) ''theme-auto'' \<and> m)"
  by (simp add: isDarkMode_def THEMES_DARK_def THEMES_AUTO_def Let_def)

lemma isDarkMode_inputs:
  "classAttr pg documentElement = classAttr pg' documentElement \<Longrightarrow>
   matchMedia pg = matchMedia pg' \<Longrightarrow> isDarkMode pg = isDarkMode pg'"
  by (simp add: isDarkMode_def className_def Let_def)

lemma marker_includes:
  assumes "t \<in> set themeClasses"
  shows "str_includes t ''theme-dark'' \<longleftrightarrow> t = ''theme-dark''"
    and "str_includes t ''theme-auto'' \<longleftrightarrow> t = ''theme-auto''"
  using assms by (auto simp: themeClasses_def)

text \<open>
  On a root element whose classes are theme markers only, the substring test and the
  class test agree.
\<close>

lemma isDarkMode_markers:
  assumes "matchMedia pg = Some m"
      and "set (classAttr pg documentElement) \<subseteq> set themeClasses"
  shows "isDarkMode pg = Inr (classList_contains pg documentElement ''theme-dark'' \<or>
                        classList_contains pg documentElement ''theme-auto'' \<and> m)"
proof -
  have "(\<exists>t\<in>set (classAttr pg documentElement). str_includes t ''theme-dark'') \<longleftrightarrow>
        ''theme-dark'' \<in> set (classAttr pg documentElement)"
    using assms(2) marker_includes(1) by blast
  moreover have "(\<exists>t\<in>set (classAttr pg documentElement). str_includes t ''theme-auto'') \<longleftrightarrow>
        ''theme-auto'' \<in> set (classAttr pg documentElement)"
    using assms(2) marker_includes(2) by blast
  ultimately show ?thesis
    using assms(1)
    by (simp add: isDarkMode_includes className_def str_includes_joinTokens classList_contains_def)
qed

lemma getEffectiveTheme_auto:
  "currentTheme s = Some ''theme-auto'' \<Longrightarrow> matchMedia s = Some m \<Longrightarrow>
   getEffectiveTheme s = Some (if m then ''theme-dark'' else ''theme-light'')"
  by (simp add: getEffectiveTheme_def)

text \<open>
  Claim C1 says that \<open>isDarkMode\<close> is true if and only if the root element carries
  the dark marker, or the auto marker while the system prefers dark. \<open>isDarkMode\<close>
  searches the string \<open>className\<close> for \<open>theme-dark\<close>, so a class that only
  contains that text counts as the marker. On the example page with the root classes
  \<open>theme-light theme-darkroom\<close> the root carries neither the dark nor the auto
  marker, \<open>detectCurrentTheme\<close> (which asks \<open>classList.contains\<close>) finds the
  light theme, and \<open>isDarkMode\<close> is true.
\<close>

theorem isDarkMode_substring_match:
  "\<not> classList_contains (exampleModal\<lparr>classAttr := (classAttr exampleModal)
        (documentElement := [''theme-light'', ''theme-darkroom''])\<rparr>) documentElement ''theme-dark'' \<and>
   \<not> classList_contains (exampleModal\<lparr>classAttr := (classAttr exampleModal)
        (documentElement := [''theme-light'', ''theme-darkroom''])\<rparr>) documentElement ''theme-auto'' \<and>
   matchMedia (exampleModal\<lparr>classAttr := (classAttr exampleModal)
        (documentElement := [''theme-light'', ''theme-darkroom''])\<rparr>) = Some True \<and>
   isDarkMode (exampleModal\<lparr>classAttr := (classAttr exampleModal)
        (documentElement := [''theme-light'', ''theme-darkroom''])\<rparr>) = Inr True \<and>
   currentTheme (snd (detectCurrentTheme (exampleModal\<lparr>classAttr := (classAttr exampleModal)
        (documentElement := [''theme-light'', ''theme-darkroom''])\<rparr>))) = Some ''theme-light''"
  by (simp add: classList_contains_def isDarkMode_def className_def THEMES_DARK_def THEMES_AUTO_def
        detectCurrentTheme_def example_defs)

subsection \<open>updateImagesForTheme\<close>

lemma isDarkMode_src: "isDarkMode (s\<lparr>src := x\<rparr>) = isDarkMode s"
  by (simp add: isDarkMode_def className_def Let_def split: option.splits)

lemma getElementById_idAttr: "getElementById s i = Some n \<Longrightarrow> idAttr s n = Some i"
  by (auto simp: getElementById_def find_Some_iff)

lemma signature_not_rateIcon:
  "getElementById s SELECTORS_SIGNATURE = Some a \<Longrightarrow>
   getElementById s SELECTORS_RATE_ICON = Some b \<Longrightarrow> a \<noteq> b"
  by (auto dest!: getElementById_idAttr simp: SELECTORS_SIGNATURE_def SELECTORS_RATE_ICON_def)

text \<open>
  Claim C5. Where \<open>isDarkMode\<close> returns \<open>isDark\<close>, \<open>updateImagesForTheme\<close>
  throws nothing and leaves each of the two images that exists with the dark path of
  its pair if \<open>isDark\<close> and with the light path otherwise; no other \<open>src\<close> is
  written. An image that does not exist is passed over: \<open>updateImageSrc\<close> on
  \<open>null\<close> returns at once, changing nothing and throwing nothing, whatever the
  theme and the window are, so the call is the update of the other image alone, and of
  nothing when both are missing.
\<close>

theorem updateImagesForTheme_sets_src:
  "(isDarkMode s = Inr isDark \<longrightarrow>
      fst (updateImagesForTheme s) = None \<and>
      (\<forall>n. getElementById s SELECTORS_SIGNATURE = Some n \<longrightarrow>
         src (snd (updateImagesForTheme s)) n =
           Some (if isDark then dark IMAGES_signature else light IMAGES_signature)) \<and>
      (\<forall>n. getElementById s SELECTORS_RATE_ICON = Some n \<longrightarrow>
         src (snd (updateImagesForTheme s)) n =
           Some (if isDark then dark IMAGES_rateIcon else light IMAGES_rateIcon)) \<and>
      (\<forall>n. getElementById s SELECTORS_SIGNATURE \<noteq> Some n \<and>
            getElementById s SELECTORS_RATE_ICON \<noteq> Some n \<longrightarrow>
         src (snd (updateImagesForTheme s)) n = src s n)) \<and>
   updateImageSrc None paths s = (None, s) \<and>
   (getElementById s SELECTORS_SIGNATURE = None \<longrightarrow>
      updateImagesForTheme s =
        updateImageSrc (getElementById s SELECTORS_RATE_ICON) IMAGES_rateIcon s) \<and>
   (getElementById s SELECTORS_RATE_ICON = None \<longrightarrow>
      updateImagesForTheme s =
        updateImageSrc (getElementById s SELECTORS_SIGNATURE) IMAGES_signature s) \<and>
   (getElementById s SELECTORS_SIGNATURE = None \<and> getElementById s SELECTORS_RATE_ICON = None \<longrightarrow>
      updateImagesForTheme s = (None, s))"
  using signature_not_rateIcon[of s]
  by (auto simp: updateImagesForTheme_def Let_def andThen_def updateImageSrc_def isDarkMode_src
      split: option.splits sum.splits)

theorem updateImagesForTheme_sets_src_witness:
  "isDarkMode exampleManager = Inr True \<and>
   getElementById exampleManager SELECTORS_SIGNATURE = Some 10 \<and>
   getElementById exampleManager SELECTORS_RATE_ICON = Some 11 \<and>
   fst (updateImagesForTheme exampleManager) = None \<and>
   src (snd (updateImagesForTheme exampleManager)) 10 = Some ''./images/signature.gif'' \<and>
   src (snd (updateImagesForTheme exampleManager)) 11 = Some ''./images/rate1_w.png'' \<and>
   src (snd (updateImagesForTheme exampleManager)) 3 = None \<and>
   getElementById (exampleManager\<lparr>elements := [0]\<rparr>) SELECTORS_SIGNATURE = None \<and>
   getElementById (exampleManager\<lparr>elements := [0]\<rparr>) SELECTORS_RATE_ICON = None \<and>
   updateImagesForTheme (exampleManager\<lparr>elements := [0]\<rparr>) = (None, exampleManager\<lparr>elements := [0]\<rparr>)"
proof -
  have d: "isDarkMode exampleManager = Inr True"
    by (simp add: example_defs isDarkMode_def className_def THEMES_DARK_def THEMES_AUTO_def
          documentElement_def)
  have e: "getElementById exampleManager SELECTORS_SIGNATURE = Some 10"
    "getElementById exampleManager SELECTORS_RATE_ICON = Some 11"
    "src exampleManager 3 = None"
    by (simp_all add: example_defs getElementById_def SELECTORS_SIGNATURE_def SELECTORS_RATE_ICON_def)
  have n: "getElementById (exampleManager\<lparr>elements := [0]\<rparr>) SELECTORS_SIGNATURE = None"
    "getElementById (exampleManager\<lparr>elements := [0]\<rparr>) SELECTORS_RATE_ICON = None"
    by (simp_all add: example_defs getElementById_def SELECTORS_SIGNATURE_def SELECTORS_RATE_ICON_def)
  show ?thesis
    using updateImagesForTheme_sets_src[of exampleManager True IMAGES_signature]
      updateImagesForTheme_sets_src[of "exampleManager\<lparr>elements := [0]\<rparr>" True IMAGES_rateIcon]
      d e n
    by (simp add: IMAGES_signature_def IMAGES_rateIcon_def)
qed

subsection \<open>destroy\<close>

lemma removeAll_only: "set xs \<subseteq> {k} \<Longrightarrow> removeAll k xs = []"
  by (induction xs) auto

text \<open>
  After \<open>init\<close> on a page that no observer watches, the observer the object holds is
  the only one observing (and none is, if \<open>init\<close> threw before making one).
\<close>

lemma init_observing:
  assumes "observing s = []"
  shows "set (observing (snd (ThemeManager_init s))) \<subseteq> set_option (observer (snd (ThemeManager_init s)))"
proof (cases "updateImagesForTheme s")
  case (Pair r s1)
  have o: "observing s1 = []"
    using Pair assms
    by (auto simp: updateImagesForTheme_def Let_def andThen_def updateImageSrc_def
        split: option.splits sum.splits)
  show ?thesis
    using Pair o
    by (cases r) (simp_all add: ThemeManager_init_def ThemeManager_bindEvents_def andThen_def
        skip_def setupThemeObserver_def Let_def)
qed

text \<open>
  Claim C8. \<open>destroy\<close> never throws. It takes the observer of the object off the
  list of observing observers and forgets it; where there is no observer it changes
  nothing, so a second \<open>destroy\<close> returns what the first did. Where the observer of
  the object is the only one observing (as after \<open>init\<close>), class mutations
  delivered after \<open>destroy\<close> run no callback: the state, image sources included,
  stays as it is.
\<close>

theorem destroy_idempotent:
  "fst (destroy s) = None \<and>
   destroy (snd (destroy s)) = destroy s \<and>
   (observer s = None \<longrightarrow> destroy s = (None, s)) \<and>
   observer (snd (destroy s)) = None \<and>
   (\<forall>k. observer s = Some k \<longrightarrow> k \<notin> set (observing (snd (destroy s)))) \<and>
   (set (observing s) \<subseteq> set_option (observer s) \<longrightarrow>
      deliverMutations mutations (snd (destroy s)) = (None, snd (destroy s)))"
  by (auto simp: destroy_def deliverMutations_def skip_def removeAll_only split: option.splits)

lemma example_deliverMutations:
  "src (snd (deliverMutations [\<lparr>mutationType = ''attributes'', attributeName = ''class''\<rparr>]
          exampleManager)) 10 = Some ''./images/signature.gif''"
  by (simp add: deliverMutations_def observerCallback_def andThen_def skip_def
        updateImagesForTheme_def updateImageSrc_def getElementById_def SELECTORS_SIGNATURE_def
        SELECTORS_RATE_ICON_def isDarkMode_def className_def THEMES_DARK_def THEMES_AUTO_def
        IMAGES_signature_def IMAGES_rateIcon_def example_defs documentElement_def)

theorem destroy_idempotent_witness:
  "observer exampleManager = Some 0 \<and>
   src exampleManager 10 = None \<and>
   src (snd (deliverMutations [\<lparr>mutationType = ''attributes'', attributeName = ''class''\<rparr>]
          exampleManager)) 10 = Some ''./images/signature.gif'' \<and>
   set (observing exampleManager) \<subseteq> set_option (observer exampleManager) \<and>
   destroy (snd (destroy exampleManager)) = destroy exampleManager \<and>
   0 \<notin> set (observing (snd (destroy exampleManager))) \<and>
   deliverMutations [\<lparr>mutationType = ''attributes'', attributeName = ''class''\<rparr>]
       (snd (destroy exampleManager)) = (None, snd (destroy exampleManager)) \<and>
   observer (snd (destroy exampleManager)) = None \<and>
   destroy (snd (destroy exampleManager)) = (None, snd (destroy exampleManager))"
proof -
  have h: "observer exampleManager = Some 0"
    "set (observing exampleManager) \<subseteq> set_option (observer exampleManager)"
    "src exampleManager 10 = None"
    by (simp_all add: example_defs)
  show ?thesis
    using destroy_idempotent[of exampleManager
        "[\<lparr>mutationType = ''attributes'', attributeName = ''class''\<rparr>]"]
      destroy_idempotent[of "snd (destroy exampleManager)" "[]"] h example_deliverMutations
    by simp
qed

section \<open>The theme selector\<close>

subsection \<open>detectCurrentTheme\<close>

text \<open>
  Claim C10. \<open>detectCurrentTheme\<close> asks for \<open>theme-dark\<close> first and for
  \<open>theme-light\<close> second: a root with the dark marker seeds \<open>theme-dark\<close>, also
  when the light marker is there too; \<open>theme-auto\<close> is seeded exactly when neither
  of the two is present, whether or not the class \<open>theme-auto\<close> is.
\<close>

theorem detectCurrentTheme_precedence:
  "fst (detectCurrentTheme s) = None \<and>
   (classList_contains s documentElement ''theme-dark'' \<longrightarrow>
      currentTheme (snd (detectCurrentTheme s)) = Some ''theme-dark'') \<and>
   (\<not> classList_contains s documentElement ''theme-dark'' \<and>
    classList_contains s documentElement ''theme-light'' \<longrightarrow>
      currentTheme (snd (detectCurrentTheme s)) = Some ''theme-light'') \<and>
   (currentTheme (snd (detectCurrentTheme s)) = Some ''theme-auto'' \<longleftrightarrow>
      \<not> classList_contains s documentElement ''theme-dark'' \<and>
      \<not> classList_contains s documentElement ''theme-light'')"
  by (simp add: detectCurrentTheme_def)

theorem detectCurrentTheme_precedence_witness:
  "classList_contains (exampleModal\<lparr>classAttr := (classAttr exampleModal)
       (documentElement := [''theme-light'', ''theme-dark''])\<rparr>) documentElement ''theme-dark'' \<and>
   classList_contains (exampleModal\<lparr>classAttr := (classAttr exampleModal)
       (documentElement := [''theme-light'', ''theme-dark''])\<rparr>) documentElement ''theme-light'' \<and>
   currentTheme (snd (detectCurrentTheme (exampleModal\<lparr>classAttr := (classAttr exampleModal)
       (documentElement := [''theme-light'', ''theme-dark''])\<rparr>))) = Some ''theme-dark'' \<and>
   \<not> classList_contains (exampleModal\<lparr>classAttr := (classAttr exampleModal)
       (documentElement := [''theme-light''])\<rparr>) documentElement ''theme-dark'' \<and>
   classList_contains (exampleModal\<lparr>classAttr := (classAttr exampleModal)
       (documentElement := [''theme-light''])\<rparr>) documentElement ''theme-light'' \<and>
   currentTheme (snd (detectCurrentTheme (exampleModal\<lparr>classAttr := (classAttr exampleModal)
       (documentElement := [''theme-light''])\<rparr>))) = Some ''theme-light'' \<and>
   currentTheme (snd (detectCurrentTheme (exampleModal\<lparr>classAttr := (classAttr exampleModal)
       (documentElement := [''no-js''])\<rparr>))) = Some ''theme-auto''"
  using detectCurrentTheme_precedence[of "exampleModal\<lparr>classAttr := (classAttr exampleModal)
       (documentElement := [''theme-light'', ''theme-dark''])\<rparr>"]
    detectCurrentTheme_precedence[of "exampleModal\<lparr>classAttr := (classAttr exampleModal)
       (documentElement := [''theme-light''])\<rparr>"]
    detectCurrentTheme_precedence[of "exampleModal\<lparr>classAttr := (classAttr exampleModal)
       (documentElement := [''no-js''])\<rparr>"]
  by (simp add: classList_contains_def)

subsection \<open>updateUI as a sequence of marks\<close>

lemma tokenError_active: "tokenError ''active'' = None"
  by (simp add: tokenError_def isAsciiWhitespace_def)

lemma tokenError_themes:
  "tokenError ''theme-light'' = None" "tokenError ''theme-dark'' = None"
  "tokenError ''theme-auto'' = None"
  by (simp_all add: tokenError_def isAsciiWhitespace_def)

lemma setActive_setActive: "setActive b (setActive b' cs) = setActive b cs"
  by (simp add: setActive_def)

lemma active_in_setActive: "''active'' \<in> set (setActive b cs) \<longleftrightarrow> b"
  by (simp add: setActive_def)

lemma other_in_setActive: "t \<noteq> ''active'' \<Longrightarrow> t \<in> set (setActive b cs) \<longleftrightarrow> t \<in> set cs"
  by (auto simp: setActive_def)

lemma markAll_Nil: "markAll [] c = c"
  by (simp add: markAll_def)

lemma markAll_Cons: "markAll (m # W) c = markAll W (mark m c)"
  by (simp add: markAll_def)

lemma markAll_append: "markAll (V @ W) c = markAll W (markAll V c)"
  by (simp add: markAll_def)

text \<open>The last mark of an element decides; an element without a mark keeps its classes.\<close>

lemma markAll_at:
  "markAll W c n = (case map_of (rev W) n of None \<Rightarrow> c n | Some b \<Rightarrow> setActive b (c n))"
proof (induction W arbitrary: c)
  case Nil
  show ?case by (simp add: markAll_Nil)
next
  case (Cons m W)
  show ?case
    by (cases m)
       (auto simp: markAll_Cons Cons.IH mark_def map_add_def setActive_setActive split: option.splits)
qed

lemma markAll_twice: "markAll W (markAll W c) = markAll W c"
  by (rule ext) (simp add: markAll_at setActive_setActive split: option.splits)

lemma markAll_other: "t \<noteq> ''active'' \<Longrightarrow> t \<in> set (markAll W c n) \<longleftrightarrow> t \<in> set (c n)"
  by (simp add: markAll_at other_in_setActive split: option.splits)

lemma markAll_untouched: "n \<notin> fst ` set W \<Longrightarrow> markAll W c n = c n"
proof -
  assume "n \<notin> fst ` set W"
  then have "map_of (rev W) n = None" by (simp add: map_of_eq_None_iff)
  then show ?thesis by (simp add: markAll_at)
qed

lemma map_of_rev_graph:
  "map_of (rev (map (\<lambda>x. (x, f x)) xs)) n = (if n \<in> set xs then Some (f n) else None)"
  by (induction xs) (auto simp: map_add_def split: option.splits)

lemma markAll_graph:
  "n \<in> set xs \<Longrightarrow> markAll (map (\<lambda>x. (x, f x)) xs) c n = setActive (f n) (c n)"
  by (simp add: markAll_at map_of_rev_graph)

lemma remove_active:
  "classList_remove n [''active''] s = (None, s\<lparr>classAttr := mark (n, False) (classAttr s)\<rparr>)"
  by (simp add: classList_remove_def tokenError_active mark_def setActive_def)

lemma add_active:
  "''active'' \<notin> set (classAttr s n) \<Longrightarrow>
   classList_add n ''active'' s = (None, s\<lparr>classAttr := mark (n, True) (classAttr s)\<rparr>)"
proof -
  assume na: "''active'' \<notin> set (classAttr s n)"
  then have "filter (\<lambda>t. t \<noteq> ''active'') (classAttr s n) = classAttr s n"
    by (auto simp: filter_id_conv)
  with na show ?thesis
    by (simp add: classList_add_def tokenError_active mark_def setActive_def)
qed

lemma forEach_marks:
  assumes f: "\<And>x s. f x s = (None, s\<lparr>classAttr := mark (x, P s x) (classAttr s)\<rparr>)"
      and P: "\<And>s c x. P (s\<lparr>classAttr := c\<rparr>) x = P s x"
  shows "forEach xs f s = (None, s\<lparr>classAttr := markAll (map (\<lambda>x. (x, P s x)) xs) (classAttr s)\<rparr>)"
proof (induction xs arbitrary: s)
  case Nil
  show ?case by (simp add: skip_def markAll_Nil)
next
  case (Cons a xs)
  have step: "f a s = (None, s\<lparr>classAttr := mark (a, P s a) (classAttr s)\<rparr>)"
    by (rule f)
  show ?case by (simp add: andThen_def step P Cons.IH markAll_Cons)
qed

lemma optionStep:
  "andThen (classList_remove option [''active''])
           (\<lambda>s. if dataTheme s option = currentTheme s
                 then classList_add option ''active'' s else skip s) s
   = (None, s\<lparr>classAttr := mark (option, dataTheme s option = currentTheme s) (classAttr s)\<rparr>)"
  by (simp add: andThen_def remove_active skip_def classList_add_def tokenError_active mark_def
        setActive_def)

lemma updateActiveOption_eq:
  "updateActiveOption s = (None, s\<lparr>classAttr := markAll (optionMarks s) (classAttr s)\<rparr>)"
  unfolding updateActiveOption_def optionMarks_def
  by (rule forEach_marks) (simp_all add: optionStep)

lemma activeIcon_classAttr: "activeIcon (s\<lparr>classAttr := c\<rparr>) = activeIcon s"
  by (simp add: activeIcon_def)

lemma activeIcon_cases:
  "activeIcon s = None \<or> activeIcon s = sunIcon s \<or> activeIcon s = moonIcon s"
  by (simp add: activeIcon_def Let_def)

lemma updateButtonIcon_eq:
  "updateButtonIcon s =
     (if iconsBound s then None else Some TypeError,
      s\<lparr>classAttr := markAll (iconMarks s) (classAttr s)\<rparr>)"
proof (cases "sunIcon s")
  case None
  then show ?thesis
    by (simp add: updateButtonIcon_def andThen_def onElement_def throw_def iconMarks_def
          iconsBound_def markAll_Nil)
next
  case a: (Some a)
  show ?thesis
  proof (cases "moonIcon s")
    case None
    with a show ?thesis
      by (simp add: updateButtonIcon_def andThen_def onElement_def throw_def iconMarks_def
            iconsBound_def markAll_Nil markAll_Cons remove_active)
  next
    case b: (Some b)
    show ?thesis
    proof (cases "autoIcon s")
      case None
      with a b show ?thesis
        by (simp add: updateButtonIcon_def andThen_def onElement_def throw_def iconMarks_def
              iconsBound_def markAll_Nil markAll_Cons remove_active)
    next
      case c: (Some c)
      show ?thesis
      proof (cases "activeIcon s")
        case None
        with a b c show ?thesis
          by (simp add: updateButtonIcon_def andThen_def onElement_def throw_def iconMarks_def
                iconsBound_def markAll_Nil markAll_Cons remove_active skip_def activeIcon_classAttr)
      next
        case (Some x)
        with activeIcon_cases[of s] a b have x: "x = a \<or> x = b" by auto
        let ?c3 = "mark (c, False) (mark (b, False) (mark (a, False) (classAttr s)))"
        have na: "''active'' \<notin> set (?c3 x)"
          using x by (auto simp: mark_def setActive_def)
        show ?thesis
          using a b c Some na
          by (simp add: updateButtonIcon_def andThen_def onElement_def throw_def iconMarks_def
                iconsBound_def markAll_Nil markAll_Cons remove_active add_active activeIcon_classAttr)
      qed
    qed
  qed
qed

text \<open>
  \<open>updateUI\<close> in one step: it throws a TypeError exactly when an icon is missing,
  and it writes the marks of \<open>uiMarks\<close> to the class attributes and nothing else.
\<close>

lemma updateUI_eq:
  "updateUI s =
     (if iconsBound s then None else Some TypeError,
      s\<lparr>classAttr := markAll (uiMarks s) (classAttr s)\<rparr>)"
  by (simp add: updateUI_def andThen_def updateButtonIcon_eq updateActiveOption_eq uiMarks_def
        markAll_append markAll_Nil optionMarks_def)

lemma uiMarks_classAttr: "uiMarks (s\<lparr>classAttr := c\<rparr>) = uiMarks s"
  by (simp add: uiMarks_def iconMarks_def optionMarks_def iconsBound_def activeIcon_classAttr
        split: option.splits)

lemma iconsBound_classAttr: "iconsBound (s\<lparr>classAttr := c\<rparr>) = iconsBound s"
  by (simp add: iconsBound_def)

lemma updateUI_twice: "updateUI (snd (updateUI s)) = updateUI s"
  by (simp add: updateUI_eq markAll_twice uiMarks_classAttr iconsBound_classAttr)

lemma iconMarks_nodes: "fst ` set (iconMarks s) \<subseteq> set (icons s)"
  using activeIcon_cases[of s]
  by (auto simp: iconMarks_def icons_def split: option.splits)

lemma optionMarks_nodes: "fst ` set (optionMarks s) = set (themeOptions s)"
  by (force simp: optionMarks_def)

lemma uiMarks_nodes: "fst ` set (uiMarks s) \<subseteq> set (icons s) \<union> set (themeOptions s)"
  using iconMarks_nodes[of s] optionMarks_nodes[of s]
  by (auto simp: uiMarks_def image_Un split: if_splits)

lemma updateUI_untouched:
  "n \<notin> set (icons s) \<Longrightarrow> n \<notin> set (themeOptions s) \<Longrightarrow>
   classAttr (snd (updateUI s)) n = classAttr s n"
  using uiMarks_nodes[of s] by (auto simp: updateUI_eq intro!: markAll_untouched)

lemma markAll_iconMarks:
  assumes "iconsBound s" "i \<in> set (icons s)"
  shows "''active'' \<in> set (markAll (iconMarks s) c i) \<longleftrightarrow> activeIcon s = Some i"
proof -
  from assms(1) obtain a b d where abd: "sunIcon s = Some a" "moonIcon s = Some b" "autoIcon s = Some d"
    by (auto simp: iconsBound_def)
  with assms(2) have i: "i = a \<or> i = b \<or> i = d" by (auto simp: icons_def)
  show ?thesis
  proof (cases "activeIcon s")
    case None
    with abd i show ?thesis
      by (auto simp: iconMarks_def markAll_Cons markAll_Nil mark_def active_in_setActive)
  next
    case (Some x)
    with abd i show ?thesis
      by (simp add: iconMarks_def markAll_Cons markAll_Nil mark_def active_in_setActive) auto
  qed
qed

lemma markAll_optionMarks:
  assumes "n \<in> set (themeOptions s)"
  shows "''active'' \<in> set (markAll (V @ optionMarks s) c n) \<longleftrightarrow> dataTheme s n = currentTheme s"
  using assms
  by (simp add: markAll_append optionMarks_def markAll_graph active_in_setActive)

subsection \<open>updateUI twice\<close>

text \<open>
  Claim C7. A second \<open>updateUI\<close> right after the first returns the same outcome and
  the same state as the first, whatever \<open>currentTheme\<close> and the system preference
  are, so the active icons and the active options are those of the first call. With
  the three icons bound and none of them an option, the active icons after
  \<open>updateUI\<close> are exactly the icon chosen for \<open>currentTheme\<close> (none for a value
  that is no theme); with the icons bound, the active options are exactly the options
  whose \<open>data-theme\<close> is \<open>currentTheme\<close>.
\<close>

theorem updateUI_idempotent:
  "updateUI (snd (updateUI s)) = updateUI s \<and>
   activeIcons (snd (updateUI (snd (updateUI s)))) = activeIcons (snd (updateUI s)) \<and>
   activeOptions (snd (updateUI (snd (updateUI s)))) = activeOptions (snd (updateUI s)) \<and>
   (iconsBound s \<and> set (icons s) \<inter> set (themeOptions s) = {} \<longrightarrow>
      activeIcons (snd (updateUI s)) = set_option (activeIcon s)) \<and>
   (iconsBound s \<longrightarrow>
      activeOptions (snd (updateUI s)) = {n \<in> set (themeOptions s). dataTheme s n = currentTheme s})"
proof (intro conjI impI)
  show twice: "updateUI (snd (updateUI s)) = updateUI s" by (rule updateUI_twice)
  show "activeIcons (snd (updateUI (snd (updateUI s)))) = activeIcons (snd (updateUI s))"
    by (simp only: twice)
  show "activeOptions (snd (updateUI (snd (updateUI s)))) = activeOptions (snd (updateUI s))"
    by (simp only: twice)
next
  assume a: "iconsBound s \<and> set (icons s) \<inter> set (themeOptions s) = {}"
  have "classList_contains (snd (updateUI s)) i ''active'' \<longleftrightarrow> activeIcon s = Some i"
    if i: "i \<in> set (icons s)" for i
  proof -
    from a i have "i \<notin> fst ` set (optionMarks s)" by (auto simp: optionMarks_nodes)
    then show ?thesis using a i
      by (simp add: updateUI_eq classList_contains_def uiMarks_def markAll_append
            markAll_untouched markAll_iconMarks)
  qed
  moreover have "activeIcon s = Some i \<Longrightarrow> i \<in> set (icons s)" for i
    using activeIcon_cases[of s] by (auto simp: icons_def)
  ultimately show "activeIcons (snd (updateUI s)) = set_option (activeIcon s)"
    by (auto simp: activeIcons_def icons_def updateUI_eq)
next
  assume a: "iconsBound s"
  then show "activeOptions (snd (updateUI s)) = {n \<in> set (themeOptions s). dataTheme s n = currentTheme s}"
    by (auto simp: activeOptions_def updateUI_eq classList_contains_def uiMarks_def markAll_optionMarks)
qed

theorem updateUI_idempotent_witness:
  "updateUI (snd (updateUI exampleModal)) = updateUI exampleModal \<and>
   iconsBound exampleModal \<and> set (icons exampleModal) \<inter> set (themeOptions exampleModal) = {} \<and>
   activeIcons (snd (updateUI exampleModal)) = {4} \<and>
   activeOptions (snd (updateUI exampleModal)) = {9} \<and>
   activeIcons (snd (updateUI (snd (updateUI exampleModal)))) = {4} \<and>
   activeOptions (snd (updateUI (snd (updateUI exampleModal)))) = {9}"
proof -
  have h: "iconsBound exampleModal" "set (icons exampleModal) \<inter> set (themeOptions exampleModal) = {}"
    by (simp_all add: example_defs iconsBound_def icons_def)
  have a: "set_option (activeIcon exampleModal) = {4}"
    by (simp add: example_defs activeIcon_def)
  have b: "{n \<in> set (themeOptions exampleModal). dataTheme exampleModal n = currentTheme exampleModal} = {9}"
    by (auto simp: example_defs)
  show ?thesis using updateUI_idempotent[of exampleModal] h a b by simp
qed

subsection \<open>setTheme and loadSavedTheme\<close>

text \<open>
  \<open>setTheme\<close> in one step. A value that is no class token makes \<open>classList.add\<close>
  throw, after the three markers were removed and before anything else is written.
\<close>

lemma setTheme_eq:
  "setTheme theme s =
     (case tokenError (jsToString theme) of
        Some e \<Rightarrow> (Some e, s\<lparr>classAttr := (classAttr s)(documentElement :=
                      filter (\<lambda>t. t \<notin> set themeClasses) (classAttr s documentElement))\<rparr>)
      | None \<Rightarrow> updateUI (s\<lparr>classAttr := (classAttr s)(documentElement :=
                      (let cs = filter (\<lambda>t. t \<notin> set themeClasses) (classAttr s documentElement)
                       in if jsToString theme \<in> set cs then cs else cs @ [jsToString theme])),
                    currentTheme := theme,
                    localStorage := (localStorage s)(''littlelink-theme'' \<mapsto> jsToString theme)\<rparr>))"
  by (simp add: setTheme_def andThen_def classList_remove_def classList_add_def tokenError_themes
        assign_def themeClasses_def Let_def split: option.splits)

lemma setTheme_fields:
  "optionsPanel (snd (setTheme th s)) = optionsPanel s"
  "isOpen (snd (setTheme th s)) = isOpen s"
  "themeOptions (snd (setTheme th s)) = themeOptions s"
  "sunIcon (snd (setTheme th s)) = sunIcon s"
  "moonIcon (snd (setTheme th s)) = moonIcon s"
  "autoIcon (snd (setTheme th s)) = autoIcon s"
  "modal (snd (setTheme th s)) = modal s"
  by (simp_all add: setTheme_eq updateUI_eq split: option.splits)

lemma setTheme_ok:
  "iconsBound s \<Longrightarrow> tokenError (jsToString th) = None \<Longrightarrow>
   fst (setTheme th s) = None \<and> currentTheme (snd (setTheme th s)) = th"
  by (simp add: setTheme_eq updateUI_eq iconsBound_def)

text \<open>
  Claim C2. For each of the three preferences \<open>p\<close>, after \<open>setTheme(p)\<close> the
  theme markers on the root element are exactly \<open>p\<close>, whatever classes the root
  had before (and whether or not the refresh of the icons that follows throws).
\<close>

theorem setTheme_one_marker:
  assumes "p \<in> set themeClasses"
  shows "{t \<in> set themeClasses.
            classList_contains (snd (setTheme (Some p) s)) documentElement t} = {p}"
proof -
  have tok: "tokenError p = None" and pa: "p \<noteq> ''active''"
    using assms by (auto simp: themeClasses_def tokenError_themes)
  have "classList_contains (snd (setTheme (Some p) s)) documentElement t \<longleftrightarrow> t = p"
    if t: "t \<in> set themeClasses" for t
  proof -
    from t have ta: "t \<noteq> ''active''" by (auto simp: themeClasses_def)
    show ?thesis using t assms
      by (auto simp: setTheme_eq jsToString_def tok updateUI_eq classList_contains_def
            markAll_other[OF ta] Let_def)
  qed
  with assms show ?thesis by auto
qed

theorem setTheme_one_marker_witness:
  "''theme-dark'' \<in> set themeClasses \<and>
   {t \<in> set themeClasses.
      classList_contains (snd (setTheme (Some ''theme-dark'') exampleModal)) documentElement t}
     = {''theme-dark''}"
  using setTheme_one_marker[of "''theme-dark''" exampleModal] by (simp add: themeClasses_def)

lemma loadSavedTheme_stored:
  assumes "p \<in> set themeClasses" and "localStorage s ''littlelink-theme'' = Some p"
  shows "currentTheme (snd (loadSavedTheme s)) = Some p"
proof -
  have tok: "tokenError p = None" and ne: "p \<noteq> []"
    using assms(1) by (auto simp: themeClasses_def tokenError_themes)
  have "currentTheme (snd (setTheme (Some p) s)) = Some p"
    by (simp add: setTheme_eq jsToString_def tok updateUI_eq)
  then show ?thesis
    using assms ne by (simp add: loadSavedTheme_def themeClasses_def)
qed

lemma setTheme_stores:
  assumes "p \<in> set themeClasses"
  shows "localStorage (snd (setTheme (Some p) s)) ''littlelink-theme'' = Some p"
proof -
  have tok: "tokenError p = None"
    using assms by (auto simp: themeClasses_def tokenError_themes)
  show ?thesis by (simp add: setTheme_eq jsToString_def tok updateUI_eq)
qed

subsection \<open>Opening and closing the panel\<close>

lemma closePanel_eq:
  "closePanel s =
     (case optionsPanel s of
        None \<Rightarrow> (Some TypeError, s)
      | Some p \<Rightarrow> (None, s\<lparr>classAttr := mark (p, False) (classAttr s), isOpen := False\<rparr>))"
  by (simp add: closePanel_def andThen_def onElement_def throw_def remove_active assign_def
        split: option.splits)

lemma openPanel_eq:
  "openPanel s =
     (case optionsPanel s of
        None \<Rightarrow> (Some TypeError, s)
      | Some p \<Rightarrow>
          (None, s\<lparr>classAttr := (classAttr s)(p := if ''active'' \<in> set (classAttr s p) then classAttr s p
                                                   else classAttr s p @ [''active'']),
                    isOpen := True,
                    activeElement := (case querySelectorIn s p ''.theme-option'' of
                                        None \<Rightarrow> activeElement s
                                      | Some firstOption \<Rightarrow> Some firstOption)\<rparr>))"
  by (simp add: openPanel_def andThen_def onElement_def throw_def classList_add_def tokenError_active
        assign_def skip_def split: option.splits)

lemma panelClosed_closePanel: "optionsPanel s = Some p \<Longrightarrow> panelClosed (snd (closePanel s))"
  by (simp add: closePanel_eq panelClosed_def panelActive_def classList_contains_def mark_def
        active_in_setActive)

lemma panelOpen_openPanel: "optionsPanel s = Some p \<Longrightarrow> panelOpen (snd (openPanel s))"
  by (simp add: openPanel_eq panelOpen_def panelActive_def classList_contains_def)

lemma closePanel_closed: "panelClosed s \<Longrightarrow> panelClosed (snd (closePanel s))"
  by (auto simp: closePanel_eq panelClosed_def panelActive_def classList_contains_def mark_def
        active_in_setActive split: option.splits)

lemma onDocumentClick_closed: "panelClosed s \<Longrightarrow> panelClosed (snd (onDocumentClick target s))"
  using closePanel_closed[of s]
  by (auto simp: onDocumentClick_def onElement_def throw_def skip_def split: option.splits)

text \<open>No step of \<open>init\<close> writes \<open>isOpen\<close>: the selector starts closed.\<close>

lemma keeps_andThen: "keeps g f1 \<Longrightarrow> keeps g f2 \<Longrightarrow> keeps g (andThen f1 f2)"
  by (auto simp: keeps_def andThen_def split: prod.splits option.splits) (metis snd_conv)+

lemma keeps_assign: "(\<And>s. g (f s) = g s) \<Longrightarrow> keeps g (assign f)"
  by (simp add: keeps_def assign_def)

lemma keeps_onElement: "(\<And>n. keeps g (f n)) \<Longrightarrow> keeps g (\<lambda>s. onElement (e s) f s)"
  by (simp add: keeps_def onElement_def throw_def split: option.splits)

lemma bindElements_isOpen: "keeps isOpen bindElements"
  unfolding bindElements_def by (intro keeps_andThen keeps_assign keeps_onElement) simp_all

lemma bindEvents_isOpen: "keeps isOpen bindEvents"
  by (simp add: keeps_def bindEvents_def onElement_def throw_def skip_def split: option.splits)

lemma detectCurrentTheme_isOpen: "keeps isOpen detectCurrentTheme"
  by (simp add: keeps_def detectCurrentTheme_def)

lemma updateUI_isOpen: "keeps isOpen updateUI"
  by (simp add: keeps_def updateUI_eq)

lemma loadSavedTheme_isOpen: "keeps isOpen loadSavedTheme"
  by (simp add: keeps_def loadSavedTheme_def skip_def setTheme_fields split: option.splits)

lemma init_isOpen: "isOpen (snd (ThemeToggleModal_init (ThemeToggleModal_load s))) = False"
proof -
  have "keeps isOpen (ThemeToggleModal_init :: 'a themeToggleModal_scheme stmt)"
    unfolding ThemeToggleModal_init_def
    by (intro keeps_andThen bindElements_isOpen bindEvents_isOpen detectCurrentTheme_isOpen
          updateUI_isOpen loadSavedTheme_isOpen)
  then show ?thesis by (simp add: keeps_def ThemeToggleModal_load_def)
qed

text \<open>
  Claim C4. The selector is closed after \<open>init\<close>. With the toggle button and
  the options panel bound: a click on the toggle button opens a closed panel and
  closes an open one; the Escape key closes an open panel; a click on a target outside
  the modal closes the panel; a click on an option closes the panel and leaves
  \<open>currentTheme\<close> at the \<open>data-theme\<close> of that option. The last needs
  what \<open>setTheme\<close> needs to run through: the three icons bound, and a
  \<open>data-theme\<close> that is a class token (\<open>classList.add\<close> throws on the
  empty string and on white space, and then \<open>closePanel\<close> is not reached). Open
  means that \<open>isOpen\<close> is true and the panel has the class \<open>active\<close>;
  closed means that neither holds.
\<close>

theorem popover_transitions:
  assumes btn: "toggleBtn s = Some b" and panel: "optionsPanel s = Some p"
  shows "\<not> isOpen (snd (ThemeToggleModal_init (ThemeToggleModal_load s0))) \<and>
         (\<not> isOpen s \<longrightarrow> panelOpen (dispatch s ToggleBtnClick)) \<and>
         (isOpen s \<longrightarrow> panelClosed (dispatch s ToggleBtnClick)) \<and>
         (isOpen s \<longrightarrow> panelClosed (dispatch s (Keydown ''Escape''))) \<and>
         (modal s = Some m \<and> \<not> containsNode s m target \<longrightarrow>
            panelClosed (dispatch s (DocumentClick target))) \<and>
         (option \<in> set (themeOptions s) \<and> iconsBound s \<and>
          tokenError (jsToString (dataTheme s option)) = None \<longrightarrow>
            panelClosed (dispatch s (OptionClick option)) \<and>
            currentTheme (dispatch s (OptionClick option)) = dataTheme s option)"
proof (intro conjI impI)
  show "\<not> isOpen (snd (ThemeToggleModal_init (ThemeToggleModal_load s0)))"
    by (simp add: init_isOpen)
next
  assume "\<not> isOpen s"
  then show "panelOpen (dispatch s ToggleBtnClick)"
    using panelOpen_openPanel[OF panel] btn
    by (simp add: dispatch_def onToggleBtnClick_def togglePanel_def)
next
  assume "isOpen s"
  then show "panelClosed (dispatch s ToggleBtnClick)"
    using panelClosed_closePanel[OF panel] btn
    by (simp add: dispatch_def onToggleBtnClick_def togglePanel_def)
next
  assume "isOpen s"
  then show "panelClosed (dispatch s (Keydown ''Escape''))"
    using panelClosed_closePanel[OF panel] btn by (simp add: dispatch_def onKeydown_def)
next
  assume "modal s = Some m \<and> \<not> containsNode s m target"
  then show "panelClosed (dispatch s (DocumentClick target))"
    using panelClosed_closePanel[OF panel] btn
    by (simp add: dispatch_def onDocumentClick_def onElement_def)
next
  assume a: "option \<in> set (themeOptions s) \<and> iconsBound s \<and>
          tokenError (jsToString (dataTheme s option)) = None"
  let ?s1 = "snd (setTheme (dataTheme s option) s)"
  let ?s2 = "snd (closePanel ?s1)"
  from a have ok: "fst (setTheme (dataTheme s option) s) = None" "currentTheme ?s1 = dataTheme s option"
    using setTheme_ok[of s "dataTheme s option"] by simp_all
  have p1: "optionsPanel ?s1 = Some p" using panel by (simp add: setTheme_fields)
  have s2: "snd (onOptionClick option s) = ?s2"
    using ok by (cases "setTheme (dataTheme s option) s") (simp add: onOptionClick_def andThen_def)
  have c2: "panelClosed ?s2" by (rule panelClosed_closePanel[OF p1])
  have t2: "currentTheme ?s2 = dataTheme s option"
    using ok p1 by (simp add: closePanel_eq)
  have d: "dispatch s (OptionClick option) = snd (onDocumentClick option ?s2)"
    using a s2 btn by (simp add: dispatch_def)
  have "panelClosed (snd (onDocumentClick option ?s2))"
    by (rule onDocumentClick_closed[OF c2])
  moreover have "currentTheme (snd (onDocumentClick option ?s2)) = currentTheme ?s2"
    by (simp add: onDocumentClick_def onElement_def throw_def skip_def closePanel_eq
          split: option.splits)
  ultimately show "panelClosed (dispatch s (OptionClick option))"
    and "currentTheme (dispatch s (OptionClick option)) = dataTheme s option"
    using d t2 by simp_all
qed

theorem popover_transitions_witness:
  "toggleBtn exampleModal = Some 2 \<and> toggleBtn exampleOpenModal = Some 2 \<and>
   optionsPanel exampleModal = Some 6 \<and> \<not> isOpen exampleModal \<and>
   panelOpen (dispatch exampleModal ToggleBtnClick) \<and>
   optionsPanel exampleOpenModal = Some 6 \<and> isOpen exampleOpenModal \<and>
   panelClosed (dispatch exampleOpenModal ToggleBtnClick) \<and>
   panelClosed (dispatch exampleOpenModal (Keydown ''Escape'')) \<and>
   modal exampleOpenModal = Some 1 \<and> \<not> containsNode exampleOpenModal 1 10 \<and>
   panelClosed (dispatch exampleOpenModal (DocumentClick 10)) \<and>
   8 \<in> set (themeOptions exampleOpenModal) \<and> iconsBound exampleOpenModal \<and>
   tokenError (jsToString (dataTheme exampleOpenModal 8)) = None \<and>
   panelClosed (dispatch exampleOpenModal (OptionClick 8)) \<and>
   currentTheme (dispatch exampleOpenModal (OptionClick 8)) = Some ''theme-dark''"
proof -
  have c: "optionsPanel exampleModal = Some 6" "\<not> isOpen exampleModal"
    "toggleBtn exampleModal = Some 2"
    by (simp_all add: example_defs)
  have o: "optionsPanel exampleOpenModal = Some 6" "isOpen exampleOpenModal"
    "toggleBtn exampleOpenModal = Some 2"
    "modal exampleOpenModal = Some 1" "\<not> containsNode exampleOpenModal 1 10"
    "8 \<in> set (themeOptions exampleOpenModal)" "iconsBound exampleOpenModal"
    "dataTheme exampleOpenModal 8 = Some ''theme-dark''"
    by (simp_all add: example_defs iconsBound_def)
  have t: "tokenError (jsToString (dataTheme exampleOpenModal 8)) = None"
    by (simp add: o jsToString_def tokenError_themes)
  show ?thesis
    using popover_transitions[OF c(3) c(1), of exampleModal 1 10 8]
      popover_transitions[OF o(3) o(1), of exampleModal 1 10 8] c o t
    by simp
qed

subsection \<open>A fresh load\<close>

lemma andThen_assoc: "andThen (andThen f g) h = andThen f (andThen g h)"
  by (auto simp: andThen_def fun_eq_iff split: prod.splits option.splits)

lemma bindElements_localStorage: "keeps localStorage bindElements"
  unfolding bindElements_def by (intro keeps_andThen keeps_assign keeps_onElement) simp_all

lemma bindEvents_localStorage: "keeps localStorage bindEvents"
  by (simp add: keeps_def bindEvents_def onElement_def throw_def skip_def split: option.splits)

lemma detectCurrentTheme_localStorage: "keeps localStorage detectCurrentTheme"
  by (simp add: keeps_def detectCurrentTheme_def)

lemma updateUI_localStorage: "keeps localStorage updateUI"
  by (simp add: keeps_def updateUI_eq)

text \<open>An \<open>init\<close> that runs through ends with \<open>loadSavedTheme\<close> on the storage it started with.\<close>

lemma init_restores:
  assumes "p \<in> set themeClasses" and "localStorage s ''littlelink-theme'' = Some p"
      and "fst (ThemeToggleModal_init s) = None"
  shows "currentTheme (snd (ThemeToggleModal_init s)) = Some p"
proof -
  let ?pre = "andThen bindElements (andThen bindEvents (andThen detectCurrentTheme updateUI))"
  have i: "ThemeToggleModal_init s = andThen ?pre loadSavedTheme s"
    by (simp add: ThemeToggleModal_init_def andThen_assoc)
  have k: "keeps localStorage ?pre"
    by (intro keeps_andThen bindElements_localStorage bindEvents_localStorage
          detectCurrentTheme_localStorage updateUI_localStorage)
  obtain r s1 where pre: "?pre s = (r, s1)" by (cases "?pre s")
  with k have st: "localStorage s1 = localStorage s" by (auto simp: keeps_def dest: spec[of _ s])
  from assms(3) i pre have "r = None" by (cases r) (simp_all add: andThen_def)
  with i pre have "ThemeToggleModal_init s = loadSavedTheme s1" by (simp add: andThen_def)
  with st assms(1,2) show ?thesis by (simp add: loadSavedTheme_stored)
qed

lemma example_init:
  "fst (ThemeToggleModal_init (ThemeToggleModal_load
      (exampleModal\<lparr>localStorage := [''littlelink-theme'' \<mapsto> ''theme-light'']\<rparr>))) = None"
proof -
  let ?s = "exampleModal\<lparr>localStorage := [''littlelink-theme'' \<mapsto> ''theme-light'']\<rparr>"
  have b: "bindElements (ThemeToggleModal_load ?s) = (None, ?s)"
    by (simp add: example_defs ThemeToggleModal_load_def bindElements_def andThen_def assign_def
      onElement_def getElementById_def querySelectorAll_class_def)
  have e: "bindEvents ?s = (None, ?s)"
    by (simp add: example_defs bindEvents_def onElement_def skip_def)
  show ?thesis
    by (simp add: ThemeToggleModal_init_def andThen_def b e detectCurrentTheme_def updateUI_eq
          loadSavedTheme_def setTheme_eq jsToString_def tokenError_themes iconsBound_def
          classList_contains_def)
       (simp add: example_defs)
qed

text \<open>
  Claim C3. \<open>setTheme(p)\<close> for one of the three preferences stores \<open>p\<close>. On any
  later state of the selector with that storage (a fresh load, whatever
  \<open>detectCurrentTheme\<close> seeded there), \<open>loadSavedTheme\<close> leaves
  \<open>currentTheme\<close> at \<open>p\<close>; so does the whole \<open>init\<close> of a fresh load, when
  it runs through to \<open>loadSavedTheme\<close>.
\<close>

theorem loadSavedTheme_roundtrip:
  assumes "p \<in> set themeClasses"
      and "localStorage s' = localStorage (snd (setTheme (Some p) s))"
  shows "localStorage s' ''littlelink-theme'' = Some p \<and>
         currentTheme (snd (loadSavedTheme s')) = Some p \<and>
         (fst (ThemeToggleModal_init (ThemeToggleModal_load s')) = None \<longrightarrow>
            currentTheme (snd (ThemeToggleModal_init (ThemeToggleModal_load s'))) = Some p)"
proof -
  have st: "localStorage s' ''littlelink-theme'' = Some p"
    using assms setTheme_stores[of p s] by simp
  then have "localStorage (ThemeToggleModal_load s') ''littlelink-theme'' = Some p"
    by (simp add: ThemeToggleModal_load_def)
  with st assms(1) show ?thesis
    by (simp add: loadSavedTheme_stored init_restores)
qed

theorem loadSavedTheme_roundtrip_witness:
  "''theme-light'' \<in> set themeClasses \<and>
   localStorage (exampleModal\<lparr>localStorage := [''littlelink-theme'' \<mapsto> ''theme-light'']\<rparr>)
     = localStorage (snd (setTheme (Some ''theme-light'') exampleOpenModal)) \<and>
   currentTheme (exampleModal\<lparr>localStorage := [''littlelink-theme'' \<mapsto> ''theme-light'']\<rparr>)
     = Some ''theme-auto'' \<and>
   currentTheme (snd (loadSavedTheme
       (exampleModal\<lparr>localStorage := [''littlelink-theme'' \<mapsto> ''theme-light'']\<rparr>)))
     = Some ''theme-light'' \<and>
   fst (ThemeToggleModal_init (ThemeToggleModal_load
       (exampleModal\<lparr>localStorage := [''littlelink-theme'' \<mapsto> ''theme-light'']\<rparr>))) = None \<and>
   currentTheme (snd (ThemeToggleModal_init (ThemeToggleModal_load
       (exampleModal\<lparr>localStorage := [''littlelink-theme'' \<mapsto> ''theme-light'']\<rparr>))))
     = Some ''theme-light''"
proof -
  let ?s' = "exampleModal\<lparr>localStorage := [''littlelink-theme'' \<mapsto> ''theme-light'']\<rparr>"
  have 1: "''theme-light'' \<in> set themeClasses" by (simp add: themeClasses_def)
  have 2: "localStorage ?s' = localStorage (snd (setTheme (Some ''theme-light'') exampleOpenModal))"
    by (simp add: setTheme_eq jsToString_def tokenError_themes updateUI_eq) (simp add: example_defs)
  have 3: "currentTheme ?s' = Some ''theme-auto''" by (simp add: example_defs)
  show ?thesis
    using loadSavedTheme_roundtrip[OF 1 2] 1 2 3 example_init by simp
qed

subsection \<open>isOpen and the class of the panel\<close>

lemma samePanel_ok: "samePanel s s' \<Longrightarrow> panelOk s \<Longrightarrow> panelOk s'"
  by (auto simp: samePanel_def panelOk_def panelApart_def panelInv_def panelActive_def
        classList_contains_def split: option.splits)

lemma updateUI_samePanel: "panelApart s \<Longrightarrow> samePanel s (snd (updateUI s))"
proof -
  assume a: "panelApart s"
  have "classAttr (snd (updateUI s)) p = classAttr s p" if "optionsPanel s = Some p" for p
    using a that
    by (intro updateUI_untouched) (auto simp: panelApart_def icons_def split: option.splits)
  then show ?thesis
    by (auto simp: samePanel_def updateUI_eq split: option.splits)
qed

lemma setTheme_samePanel: "panelApart s \<Longrightarrow> samePanel s (snd (setTheme th s))"
proof -
  assume a: "panelApart s"
  show ?thesis
  proof (cases "tokenError (jsToString th)")
    case (Some e)
    with a show ?thesis
      by (auto simp: setTheme_eq samePanel_def panelApart_def split: option.splits)
  next
    case None
    let ?s1 = "s\<lparr>classAttr := (classAttr s)(documentElement :=
                      (let cs = filter (\<lambda>t. t \<notin> set themeClasses) (classAttr s documentElement)
                       in if jsToString th \<in> set cs then cs else cs @ [jsToString th])),
                    currentTheme := th,
                    localStorage := (localStorage s)(''littlelink-theme'' \<mapsto> jsToString th)\<rparr>"
    have 1: "samePanel s ?s1" using a
      by (auto simp: samePanel_def panelApart_def split: option.splits)
    have "panelApart ?s1" using a by (simp add: panelApart_def split: option.splits)
    then have 2: "samePanel ?s1 (snd (updateUI ?s1))" by (rule updateUI_samePanel)
    have "samePanel s (snd (updateUI ?s1))"
      using 1 2 by (auto simp: samePanel_def split: option.splits)
    with None show ?thesis by (simp add: setTheme_eq)
  qed
qed

lemma closePanel_ok: "panelOk s \<Longrightarrow> panelOk (snd (closePanel s))"
  by (auto simp: closePanel_eq panelOk_def panelApart_def panelInv_def panelActive_def
        classList_contains_def mark_def active_in_setActive split: option.splits)

lemma openPanel_ok: "panelOk s \<Longrightarrow> panelOk (snd (openPanel s))"
  by (auto simp: openPanel_eq panelOk_def panelApart_def panelInv_def panelActive_def
        classList_contains_def split: option.splits)

lemma togglePanel_ok: "panelOk s \<Longrightarrow> panelOk (snd (togglePanel s))"
  by (simp add: togglePanel_def closePanel_ok openPanel_ok)

lemma onDocumentClick_ok: "panelOk s \<Longrightarrow> panelOk (snd (onDocumentClick target s))"
  using closePanel_ok[of s]
  by (auto simp: onDocumentClick_def onElement_def throw_def skip_def split: option.splits)

lemma onKeydown_ok: "panelOk s \<Longrightarrow> panelOk (snd (onKeydown key s))"
  using closePanel_ok[of s] by (simp add: onKeydown_def skip_def)

lemma onOptionClick_ok: "panelOk s \<Longrightarrow> panelOk (snd (onOptionClick option s))"
proof -
  assume ok: "panelOk s"
  let ?r = "setTheme (dataTheme s option) s"
  have 1: "panelOk (snd ?r)"
    using ok setTheme_samePanel[of s "dataTheme s option"] samePanel_ok
    by (auto simp: panelOk_def)
  show ?thesis
    using 1 closePanel_ok[of "snd ?r"]
    by (cases ?r) (auto simp: onOptionClick_def andThen_def split: option.splits)
qed

lemma onSchemeChange_ok: "panelOk s \<Longrightarrow> panelOk (snd (onSchemeChange s))"
  using updateUI_samePanel[of s] samePanel_ok[of s "snd (updateUI s)"]
  by (auto simp: onSchemeChange_def skip_def panelOk_def)

lemma matchMedia_ok: "panelOk (s\<lparr>matchMedia := m\<rparr>) = panelOk s"
  by (simp add: panelOk_def panelApart_def panelInv_def panelActive_def classList_contains_def
        split: option.splits)

lemma environment_ok: "panelOk s \<Longrightarrow> panelOk (environment s e)"
  by (cases e) (simp_all add: matchMedia_ok split: option.splits)

lemma listeners_ok: "panelOk s \<Longrightarrow> panelOk (listeners s e)"
proof (cases e)
  case ToggleBtnClick
  assume "panelOk s"
  with ToggleBtnClick show ?thesis by (simp add: onToggleBtnClick_def togglePanel_ok)
next
  case (OptionClick x)
  assume "panelOk s"
  with OptionClick show ?thesis by (simp add: onOptionClick_ok onDocumentClick_ok)
next
  case (DocumentClick x)
  assume "panelOk s"
  with DocumentClick show ?thesis by (simp add: onDocumentClick_ok)
next
  case (Keydown x)
  assume "panelOk s"
  with Keydown show ?thesis by (simp add: onKeydown_ok)
next
  case (SchemeChange x)
  assume "panelOk s"
  with SchemeChange show ?thesis
    by (auto simp: onSchemeChange_ok split: option.splits)
qed

lemma dispatch_ok: "panelOk s \<Longrightarrow> panelOk (dispatch s e)"
  by (simp add: dispatch_def Let_def environment_ok listeners_ok)

lemma dispatch_all_ok: "panelOk s \<Longrightarrow> panelOk (foldl dispatch s es)"
  by (induction es arbitrary: s) (simp_all add: dispatch_ok)

lemma load_panelInv: "panelInv (ThemeToggleModal_load s)"
  by (simp add: ThemeToggleModal_load_def panelInv_def panelActive_def)

text \<open>
  Claim C9. \<open>isOpen\<close> is true exactly when the options panel carries the class
  \<open>active\<close>: from a state where this holds (such as the closed selector whose panel
  has no class \<open>active\<close>), it holds again after \<open>openPanel\<close>,
  \<open>closePanel\<close>, \<open>togglePanel\<close> and after any sequence of events of the
  registered listeners, whether or not a listener throws on the way. The panel is
  taken to be an element of its own (not the root element, an option or an icon), so
  that the classes \<open>setTheme\<close> and \<open>updateUI\<close> write are not the panel's.
\<close>

theorem isOpen_iff_active:
  assumes "panelApart s" and "panelInv s"
  shows "panelInv (snd (openPanel s)) \<and> panelInv (snd (closePanel s)) \<and>
         panelInv (snd (togglePanel s)) \<and> panelInv (foldl dispatch s events)"
  using assms openPanel_ok[of s] closePanel_ok[of s] togglePanel_ok[of s]
    dispatch_all_ok[of s events]
  by (simp add: panelOk_def)

theorem isOpen_iff_active_witness:
  "panelApart exampleModal \<and> panelInv exampleModal \<and>
   \<not> isOpen exampleModal \<and> \<not> panelActive exampleModal \<and>
   panelInv (snd (openPanel exampleModal)) \<and> panelInv (snd (closePanel exampleModal)) \<and>
   panelInv (snd (togglePanel exampleModal)) \<and>
   panelInv (foldl dispatch exampleModal
      [ToggleBtnClick, SchemeChange False, OptionClick 8, ToggleBtnClick, Keydown ''Escape'',
       DocumentClick 10])"
proof -
  have h: "panelApart exampleModal" "panelInv exampleModal"
    "\<not> isOpen exampleModal" "\<not> panelActive exampleModal"
    by (simp_all add: example_defs panelApart_def panelInv_def panelActive_def
        classList_contains_def documentElement_def)
  show ?thesis
    using isOpen_iff_active[OF h(1,2), of "[ToggleBtnClick, SchemeChange False, OptionClick 8,
        ToggleBtnClick, Keydown ''Escape'', DocumentClick 10]"] h
    by simp
qed

end
